theory Spec2Isabelle
  imports Complex_Main
begin

section \<open>The SIR comparison script: bubonic plague against COVID-19\<close>

text \<open>
  The script \<^verbatim>\<open>LogisticGrowthGraph_BubonicPlaguevsCovid19.py\<close> defines the SIR
  derivative function, integrates it twice with an external solver, plots both solutions,
  derives summary statistics from the sampled series and prints them.

  Python's floats are idealised as the real numbers: every statement below is about the
  arithmetic the script writes down, not about IEEE rounding. Exceptions of the Python
  run time are values of the type \<open>error\<close>, and a fallible operation returns
  \<open>error + 'a\<close> with \<open>Inl\<close> for the raised exception.
\<close>

subsection \<open>Errors\<close>

datatype error = ValueError | ZeroDivisionError | IndexError

definition ebind :: "error + 'a \<Rightarrow> ('a \<Rightarrow> error + 'b) \<Rightarrow> error + 'b" where
  "ebind m f = (case m of Inl e \<Rightarrow> Inl e | Inr v \<Rightarrow> f v)"

definition truediv :: "real \<Rightarrow> real \<Rightarrow> error + real" where
  \<comment> \<open>Python's \<^verbatim>\<open>a / b\<close>.\<close>
  "truediv a b = (if b = 0 then Inl ZeroDivisionError else Inr (a / b))"

subsection \<open>Module constants (lines 6 to 21)\<close>

definition N :: real where "N = 729000"

definition I0 :: real where "I0 = 1"
definition S0 :: real where "S0 = N - I0"
definition R0 :: real where "R0 = 0"

definition beta_plague :: real where "beta_plague = 0.3"
definition gamma_plague :: real where "gamma_plague = 0.1"

definition beta_covid :: real where "beta_covid = 0.5"
definition gamma_covid :: real where "gamma_covid = 0.1"

subsection \<open>The derivative function (lines 24 to 29)\<close>

text \<open>
  \<^verbatim>\<open>S, I, R = y\<close> raises ValueError unless \<open>y\<close> has exactly three components.
  The unary minus of \<^verbatim>\<open>-beta * S * I / N\<close> binds tighter than the product, and
  the products and the quotient associate to the left.
\<close>

definition sir_model :: "real \<Rightarrow> real list \<Rightarrow> real \<Rightarrow> real \<Rightarrow> error + real list" where
  "sir_model t y beta gamma =
     (case y of
        [S, I, R] \<Rightarrow>
          ebind (truediv (((- beta) * S) * I) N) (\<lambda>dSdt.
          ebind (truediv ((beta * S) * I) N) (\<lambda>q.
          let dIdt = q - gamma * I;
              dRdt = gamma * I
          in Inr [dSdt, dIdt, dRdt]))
      | _ \<Rightarrow> Inl ValueError)"

section \<open>Properties of the derivative function\<close>

lemma N_nonzero: "N \<noteq> 0"
  by (simp add: N_def)

lemma sir_model_triple:
  "sir_model t [S, I, R] beta gamma =
     Inr [- beta * S * I / N, beta * S * I / N - gamma * I, gamma * I]"
  by (simp add: sir_model_def ebind_def truediv_def N_nonzero Let_def)

text \<open>
  Claim C1. For every state \<open>(S, I, R)\<close> and every parameter pair \<open>(beta, gamma)\<close> the
  derivative function returns the vector
  \<open>(- beta S I / N, beta S I / N - gamma I, gamma I)\<close> with \<open>N = 729000\<close>; the result does
  not depend on the time argument. The function is a pure value, so there is no state it
  could change.
\<close>

theorem sir_model_equations:
  "sir_model t [S, I, R] beta gamma =
     Inr [- (beta * S * I) / 729000, beta * S * I / 729000 - gamma * I, gamma * I]
   \<and> sir_model t y beta gamma = sir_model t' y beta gamma"
  by (simp add: sir_model_def ebind_def truediv_def N_def Let_def)

end
